theory Spec2Isabelle
  imports Complex_Main "HOL-Library.Char_ord" "HOL-Library.List_Lexorder"
begin

section \<open>Exceptions\<close>

text \<open>
  The three kinds of exception that travel through the repository adapter and the
  handlers. \<open>RpcException s m\<close> is \<^verbatim>\<open>new RpcException({ status: s, message: m })\<close>,
  \<open>Error m\<close> is a plain \<^verbatim>\<open>new Error(m)\<close>, and \<open>PrismaError c m\<close> is an error raised by
  the Prisma client, with its \<^verbatim>\<open>code\<close> (empty when the error has none) and message.
  Status 400 is the validation failure, 404 the not-found failure and 500 the storage
  failure of the error taxonomy.
\<close>

datatype exn =
    RpcException int string
  | Error string
  | PrismaError string string

text \<open>\<^verbatim>\<open>error.message\<close>; an RpcException built from an object takes the object's message.\<close>

fun message :: "exn \<Rightarrow> string" where
  "message (RpcException s m) = m"
| "message (Error m) = m"
| "message (PrismaError c m) = m"

text \<open>\<^verbatim>\<open>error.code\<close>; only Prisma errors carry one.\<close>

fun code :: "exn \<Rightarrow> string option" where
  "code (PrismaError c m) = Some c"
| "code _ = None"

fun is_RpcException :: "exn \<Rightarrow> bool" where
  "is_RpcException (RpcException s m) = True"
| "is_RpcException _ = False"

section \<open>The Product entity (product.entity.ts)\<close>

text \<open>
  A JavaScript \<^verbatim>\<open>number\<close> price is a rational here; strings are lists of 8-bit code
  units.
\<close>

record Product =
  p_id :: string
  p_name :: string
  p_price :: rat
  p_available :: bool

text \<open>The constructor: the only check is on the price.\<close>

definition Product_new :: "string \<Rightarrow> string \<Rightarrow> rat \<Rightarrow> bool \<Rightarrow> exn + Product" where
  "Product_new i n p a =
     (if p < 0 then Inl (Error ''Product price cannot be negative.'')
      else Inr \<lparr>p_id = i, p_name = n, p_price = p, p_available = a\<rparr>)"

text \<open>
  \<^verbatim>\<open>String.prototype.trim\<close>: the white space and line terminators of ECMAScript that
  fit in an 8-bit code unit (TAB, LF, VT, FF, CR, SP, NBSP) are dropped at both ends.
\<close>

definition is_space :: "char \<Rightarrow> bool" where
  "is_space c = (c \<in> set [CHR 0x09, CHR 0x0A, CHR 0x0B, CHR 0x0C, CHR 0x0D, CHR 0x20, CHR 0xA0])"

definition trim :: "string \<Rightarrow> string" where
  "trim s = rev (dropWhile is_space (rev (dropWhile is_space s)))"

text \<open>
  \<^verbatim>\<open>updateDetails(name?, price?)\<close> mutates \<^verbatim>\<open>this\<close>: the model returns the outcome
  together with the entity as the call leaves it. The name is checked and assigned
  first, the price is checked and assigned second; a throw keeps what was assigned
  before it.
\<close>

definition updateDetails ::
  "string option \<Rightarrow> rat option \<Rightarrow> Product \<Rightarrow> (exn + unit) \<times> Product" where
  "updateDetails nm pr this =
     (case (case nm of
              Some n \<Rightarrow>
                if n = [] \<or> length (trim n) = 0
                then (Inl (Error ''Product name cannot be empty.''), this)
                else (Inr (), this\<lparr>p_name := trim n\<rparr>)
            | None \<Rightarrow> (Inr (), this)) of
        (Inl e, this') \<Rightarrow> (Inl e, this')
      | (Inr u, this') \<Rightarrow>
          (case pr of
             Some p \<Rightarrow>
               if p < 0
               then (Inl (Error ''Product price cannot be negative.''), this')
               else (Inr (), this'\<lparr>p_price := p\<rparr>)
           | None \<Rightarrow> (Inr (), this')))"

definition markAsUnavailable :: "Product \<Rightarrow> Product" where
  "markAsUnavailable this = this\<lparr>p_available := False\<rparr>"

section \<open>The Product table and the Prisma client\<close>

text \<open>
  The storage collaborator. A row of the table \<^verbatim>\<open>Product\<close> of the schema carries the
  four columns the adapter reads (the two timestamp columns are never read by the code
  and are left out). The table is the list of its rows in the order in which the engine
  scans them; a new row goes to the end. The column \<^verbatim>\<open>id\<close> is the primary key, and the
  order of the keys is the order of their bytes.
\<close>

record ProductRow =
  r_id :: string
  r_name :: string
  r_price :: rat
  r_available :: bool

type_synonym table = "ProductRow list"

text \<open>
  A call of the client may fail for reasons of the engine's own (connection lost,
  timeout). \<open>Some (c, m)\<close> makes the call throw \<open>PrismaError c m\<close>; \<open>None\<close> lets it run.
\<close>

type_synonym fault = "(string \<times> string) option"

text \<open>The \<^verbatim>\<open>data\<close> object of an update: a column is written when it is present.\<close>

record PrismaData =
  d_name :: "string option"
  d_price :: "rat option"
  d_available :: "bool option"

definition apply_data :: "PrismaData \<Rightarrow> ProductRow \<Rightarrow> ProductRow" where
  "apply_data d r =
     r\<lparr>r_name := (case d_name d of Some n \<Rightarrow> n | None \<Rightarrow> r_name r),
       r_price := (case d_price d of Some p \<Rightarrow> p | None \<Rightarrow> r_price r),
       r_available := (case d_available d of Some a \<Rightarrow> a | None \<Rightarrow> r_available r)\<rparr>"

text \<open>
  \<^verbatim>\<open>prisma.product.create\<close>: the column \<^verbatim>\<open>available\<close> takes its default \<^verbatim>\<open>true\<close>; a second
  row with the same primary key is refused (P2002).
\<close>

definition prisma_create ::
  "fault \<Rightarrow> string \<Rightarrow> string \<Rightarrow> rat \<Rightarrow> table \<Rightarrow> (exn + ProductRow) \<times> table" where
  "prisma_create f i n p t =
     (case f of
        Some (c, m) \<Rightarrow> (Inl (PrismaError c m), t)
      | None \<Rightarrow>
          if i \<in> set (map r_id t)
          then (Inl (PrismaError ''P2002'' ''Unique constraint failed on the fields: (id)''), t)
          else (Inr \<lparr>r_id = i, r_name = n, r_price = p, r_available = True\<rparr>,
                t @ [\<lparr>r_id = i, r_name = n, r_price = p, r_available = True\<rparr>]))"

text \<open>\<^verbatim>\<open>prisma.product.findFirst({ where })\<close>: the first matching row, or null.\<close>

definition prisma_findFirst ::
  "fault \<Rightarrow> (ProductRow \<Rightarrow> bool) \<Rightarrow> table \<Rightarrow> exn + ProductRow option" where
  "prisma_findFirst f wh t =
     (case f of
        Some (c, m) \<Rightarrow> Inl (PrismaError c m)
      | None \<Rightarrow> Inr (find wh t))"

text \<open>\<^verbatim>\<open>prisma.product.count({ where })\<close>.\<close>

definition prisma_count :: "(ProductRow \<Rightarrow> bool) \<Rightarrow> table \<Rightarrow> int" where
  "prisma_count wh t = int (length (filter wh t))"

text \<open>
  \<^verbatim>\<open>prisma.product.findMany({ skip, take, where })\<close> with no \<^verbatim>\<open>orderBy\<close>. Without
  \<^verbatim>\<open>skip\<close> and \<^verbatim>\<open>take\<close> the matching rows come in scan order. With one of them the
  client orders the matching rows by the primary key (for the \<^verbatim>\<open>TEXT\<close> key of the
  schema: byte by byte, a prefix first), drops the first \<^verbatim>\<open>skip\<close> and cuts to \<^verbatim>\<open>take\<close>. Both
  numbers are signed 64-bit integers for the client: a value outside that range is
  refused, and so is a negative \<^verbatim>\<open>skip\<close>; a negative \<^verbatim>\<open>take\<close> counts from the end of the
  ordered list. Inside a transaction the fault is the transaction's.
\<close>

definition int64 :: "int \<Rightarrow> bool" where
  "int64 n = (- (2 ^ 63) \<le> n \<and> n < 2 ^ 63)"

definition prisma_findMany ::
  "fault \<Rightarrow> int option \<Rightarrow> int option \<Rightarrow> (ProductRow \<Rightarrow> bool) \<Rightarrow> table
     \<Rightarrow> exn + ProductRow list" where
  "prisma_findMany f skip tk wh t =
     (case f of
        Some (c, m) \<Rightarrow> Inl (PrismaError c m)
      | None \<Rightarrow>
          if skip = None \<and> tk = None then Inr (filter wh t)
          else
            (let k = (case skip of Some k \<Rightarrow> k | None \<Rightarrow> 0) in
             if \<not> int64 k \<or> (case tk of Some n \<Rightarrow> \<not> int64 n | None \<Rightarrow> False)
             then Inl (PrismaError [] ''Unable to fit integer value into a 64-bit signed integer.'')
             else if k < 0
             then Inl (PrismaError [] ''Invalid value for skip argument: Value can only be positive.'')
             else
               (case tk of
                  None \<Rightarrow> Inr (drop (nat k) (sort_key r_id (filter wh t)))
                | Some n \<Rightarrow>
                    if 0 \<le> n
                    then Inr (take (nat n) (drop (nat k) (sort_key r_id (filter wh t))))
                    else Inr (rev (take (nat (- n))
                                (drop (nat k) (rev (sort_key r_id (filter wh t)))))))))"

text \<open>
  \<^verbatim>\<open>prisma.$transaction([count({ where }), findMany({ skip, take, where })])\<close>: both reads
  see the same table; a failure of either fails the whole call.
\<close>

definition prisma_transaction ::
  "fault \<Rightarrow> (ProductRow \<Rightarrow> bool) \<Rightarrow> int \<Rightarrow> int \<Rightarrow> table \<Rightarrow> exn + int \<times> ProductRow list" where
  "prisma_transaction f wh skip tk t =
     (case f of
        Some (c, m) \<Rightarrow> Inl (PrismaError c m)
      | None \<Rightarrow>
          (case prisma_findMany None (Some skip) (Some tk) wh t of
             Inl e \<Rightarrow> Inl e
           | Inr rows \<Rightarrow> Inr (prisma_count wh t, rows)))"

text \<open>
  \<^verbatim>\<open>prisma.product.update({ where: { id }, data })\<close>: the row with that key is rewritten
  and returned; no such row is P2025.
\<close>

definition prisma_update ::
  "fault \<Rightarrow> string \<Rightarrow> PrismaData \<Rightarrow> table \<Rightarrow> (exn + ProductRow) \<times> table" where
  "prisma_update f i d t =
     (case f of
        Some (c, m) \<Rightarrow> (Inl (PrismaError c m), t)
      | None \<Rightarrow>
          (case find (\<lambda>r. r_id r = i) t of
             None \<Rightarrow> (Inl (PrismaError ''P2025'' ''Record to update not found.''), t)
           | Some r \<Rightarrow>
               (Inr (apply_data d r), map (\<lambda>x. if r_id x = i then apply_data d x else x) t)))"

section \<open>The repository adapter (PrismaProductRepository)\<close>

record ProductCreateData =
  c_id :: string
  c_name :: string
  c_price :: rat

text \<open>\<^verbatim>\<open>Partial<Omit<Product, 'id' | 'available'>>\<close>, also the handler's \<^verbatim>\<open>UpdateProductData\<close>.\<close>

record UpdateProductData =
  u_name :: "string option"
  u_price :: "rat option"

datatype js_number = Num int | Infinity | MinusInfinity | NaN

record Meta =
  m_total :: int
  m_page :: int
  m_lastPage :: js_number

record PaginatedProductResult =
  data :: "Product list"
  meta :: Meta

record PaginationDto =
  dto_page :: "int option"
  dto_limit :: "int option"

text \<open>
  \<^verbatim>\<open>mapToDomain\<close> returns null for null and builds the entity otherwise; the constructor
  may throw. \<open>mapToDomain_row\<close> is the same function at a row that is not null, and
  \<open>mapToDomain_list\<close> is \<^verbatim>\<open>rows.map(p => this.mapToDomain(p))\<close>, which stops at the first
  throw.
\<close>

definition mapToDomain_row :: "ProductRow \<Rightarrow> exn + Product" where
  "mapToDomain_row r = Product_new (r_id r) (r_name r) (r_price r) (r_available r)"

definition mapToDomain :: "ProductRow option \<Rightarrow> exn + Product option" where
  "mapToDomain prismaProduct =
     (case prismaProduct of
        None \<Rightarrow> Inr None
      | Some r \<Rightarrow> (case mapToDomain_row r of Inl e \<Rightarrow> Inl e | Inr p \<Rightarrow> Inr (Some p)))"

fun mapToDomain_list :: "ProductRow list \<Rightarrow> exn + Product list" where
  "mapToDomain_list [] = Inr []"
| "mapToDomain_list (r # rs) =
     (case mapToDomain_row r of
        Inl e \<Rightarrow> Inl e
      | Inr p \<Rightarrow> (case mapToDomain_list rs of Inl e \<Rightarrow> Inl e | Inr ps \<Rightarrow> Inr (p # ps)))"

definition mapToPrismaUpdateData :: "UpdateProductData \<Rightarrow> PrismaData" where
  "mapToPrismaUpdateData productData =
     \<lparr>d_name = u_name productData, d_price = u_price productData, d_available = None\<rparr>"

text \<open>\<^verbatim>\<open>create\<close>: every throw inside the try block becomes the same RpcException 500.\<close>

definition create :: "fault \<Rightarrow> ProductCreateData \<Rightarrow> table \<Rightarrow> (exn + Product) \<times> table" where
  "create f productData t =
     (case prisma_create f (c_id productData) (c_name productData) (c_price productData) t of
        (Inl e, t') \<Rightarrow> (Inl (RpcException 500 ''Database error creating product.''), t')
      | (Inr r, t') \<Rightarrow>
          (case mapToDomain_row r of
             Inl e \<Rightarrow> (Inl (RpcException 500 ''Database error creating product.''), t')
           | Inr p \<Rightarrow> (Inr p, t')))"

text \<open>\<^verbatim>\<open>findById\<close>: every throw inside the try block becomes null.\<close>

definition findById :: "fault \<Rightarrow> string \<Rightarrow> table \<Rightarrow> Product option" where
  "findById f i t =
     (case prisma_findFirst f (\<lambda>r. r_id r = i \<and> r_available r = True) t of
        Inl e \<Rightarrow> None
      | Inr prismaProduct \<Rightarrow>
          (case mapToDomain prismaProduct of Inl e \<Rightarrow> None | Inr p \<Rightarrow> p))"

text \<open>
  \<^verbatim>\<open>Math.ceil(totalAvailable / limit)\<close> on integers: the division by zero gives NaN or an
  infinity, which \<^verbatim>\<open>Math.ceil\<close> returns as they are.
\<close>

definition Math_ceil_div :: "int \<Rightarrow> int \<Rightarrow> js_number" where
  "Math_ceil_div a b =
     (if b = 0 then (if a = 0 then NaN else if 0 < a then Infinity else MinusInfinity)
      else Num \<lceil>rat_of_int a / rat_of_int b\<rceil>)"

definition findAllAvailablePaginated ::
  "fault \<Rightarrow> PaginationDto \<Rightarrow> table \<Rightarrow> exn + PaginatedProductResult" where
  "findAllAvailablePaginated f paginationDto t =
     (let page = (case dto_page paginationDto of Some p \<Rightarrow> p | None \<Rightarrow> 1);
          limit = (case dto_limit paginationDto of Some l \<Rightarrow> l | None \<Rightarrow> 10);
          skip = (page - 1) * limit
      in case prisma_transaction f (\<lambda>r. r_available r = True) skip limit t of
           Inl e \<Rightarrow> Inl (RpcException 500 ''Database error finding products.'')
         | Inr (totalAvailable, prismaProducts) \<Rightarrow>
             (case mapToDomain_list prismaProducts of
                Inl e \<Rightarrow> Inl (RpcException 500 ''Database error finding products.'')
              | Inr domainProducts \<Rightarrow>
                  Inr \<lparr>data = domainProducts,
                       meta = \<lparr>m_total = totalAvailable, m_page = page,
                               m_lastPage = Math_ceil_div totalAvailable limit\<rparr>\<rparr>))"

text \<open>The catch block of \<^verbatim>\<open>update\<close>: P2025 is the 404, anything else the 500.\<close>

definition update_catch :: "string \<Rightarrow> exn \<Rightarrow> exn" where
  "update_catch i e =
     (if code e = Some ''P2025''
      then RpcException 404 (''Product with ID '' @ i @ '' not found for update.'')
      else RpcException 500 ''Database error updating product.'')"

text \<open>
  \<^verbatim>\<open>update\<close>: with no column to write, the current state is read through \<open>findById\<close>
  (outside the try block, so the plain Error leaves the method as it is); otherwise the
  row is written first and mapped to the entity afterwards, inside the try block.
\<close>

definition update ::
  "fault \<Rightarrow> string \<Rightarrow> UpdateProductData \<Rightarrow> table \<Rightarrow> (exn + Product) \<times> table" where
  "update f i updateData t =
     (let prismaData = mapToPrismaUpdateData updateData in
      if d_name prismaData = None \<and> d_price prismaData = None \<and> d_available prismaData = None
      then
        (case findById f i t of
           None \<Rightarrow> (Inl (Error (''Product #'' @ i @ '' not found for update check.'')), t)
         | Some currentProduct \<Rightarrow> (Inr currentProduct, t))
      else
        (case prisma_update f i prismaData t of
           (Inl e, t') \<Rightarrow> (Inl (update_catch i e), t')
         | (Inr r, t') \<Rightarrow>
             (case mapToDomain_row r of
                Inl e \<Rightarrow> (Inl (update_catch i e), t')
              | Inr p \<Rightarrow> (Inr p, t'))))"

definition softDelete_catch :: "string \<Rightarrow> exn \<Rightarrow> exn" where
  "softDelete_catch i e =
     (if code e = Some ''P2025''
      then RpcException 404 (''Product with ID '' @ i @ '' not found for deletion.'')
      else RpcException 500 ''Database error deleting product.'')"

definition softDelete :: "fault \<Rightarrow> string \<Rightarrow> table \<Rightarrow> (exn + Product) \<times> table" where
  "softDelete f i t =
     (case prisma_update f i \<lparr>d_name = None, d_price = None, d_available = Some False\<rparr> t of
        (Inl e, t') \<Rightarrow> (Inl (softDelete_catch i e), t')
      | (Inr r, t') \<Rightarrow>
          (case mapToDomain_row r of
             Inl e \<Rightarrow> (Inl (softDelete_catch i e), t')
           | Inr p \<Rightarrow> (Inr p, t')))"

text \<open>
  \<^verbatim>\<open>Array.from(new Set(ids))\<close>: a Set keeps the first occurrence of each element, in
  insertion order.
\<close>

definition Set_add :: "'a list \<Rightarrow> 'a \<Rightarrow> 'a list" where
  "Set_add s x = (if x \<in> set s then s else s @ [x])"

definition Array_from_Set :: "'a list \<Rightarrow> 'a list" where
  "Array_from_Set ids = foldl Set_add [] ids"

definition findAvailableByIds :: "fault \<Rightarrow> string list \<Rightarrow> table \<Rightarrow> exn + Product list" where
  "findAvailableByIds f ids t =
     (if length ids = 0 then Inr []
      else
        (let uniqueIds = Array_from_Set ids in
         case prisma_findMany f None None (\<lambda>r. r_id r \<in> set uniqueIds \<and> r_available r = True) t of
           Inl e \<Rightarrow> Inl (RpcException 500 ''Database error finding products by IDs.'')
         | Inr prismaProducts \<Rightarrow>
             (case mapToDomain_list prismaProducts of
                Inl e \<Rightarrow> Inl (RpcException 500 ''Database error finding products by IDs.'')
              | Inr ps \<Rightarrow> Inr ps)))"

section \<open>The handlers\<close>

text \<open>
  The catch block shared by the FindOne, Update, Delete and Validate handlers: an
  RpcException is thrown again as it is; anything else is wrapped. None of the three
  kinds of exception has a \<^verbatim>\<open>status\<close> or a \<^verbatim>\<open>response\<close> property, so
  \<^verbatim>\<open>error.status || error.response?.status || 500\<close> is 500, and
  \<^verbatim>\<open>error.message || error.response?.message || dflt\<close> is the message unless it is empty.
\<close>

definition wrap_error :: "string \<Rightarrow> exn \<Rightarrow> exn" where
  "wrap_error dflt e = RpcException 500 (if message e = [] then dflt else message e)"

definition handler_catch :: "string \<Rightarrow> exn \<Rightarrow> exn" where
  "handler_catch dflt e = (if is_RpcException e then e else wrap_error dflt e)"

text \<open>
  \<^verbatim>\<open>CreateProductHandler.execute\<close>; \<open>uuid\<close> is what \<^verbatim>\<open>randomUUID()\<close> returns. Its catch
  block wraps every exception, an RpcException too.
\<close>

definition CreateProductHandler_execute ::
  "fault \<Rightarrow> string \<Rightarrow> string \<Rightarrow> rat \<Rightarrow> table \<Rightarrow> (exn + Product) \<times> table" where
  "CreateProductHandler_execute f uuid n p t =
     (case create f \<lparr>c_id = uuid, c_name = n, c_price = p\<rparr> t of
        (Inl e, t') \<Rightarrow> (Inl (wrap_error ''Failed to create product.'' e), t')
      | (Inr newProduct, t') \<Rightarrow> (Inr newProduct, t'))"

definition FindOneProductHandler_execute :: "fault \<Rightarrow> string \<Rightarrow> table \<Rightarrow> exn + Product" where
  "FindOneProductHandler_execute f i t =
     (case findById f i t of
        None \<Rightarrow>
          Inl (handler_catch ''Failed to retrieve product.''
                 (RpcException 404 (''Product with id #'' @ i @ '' not found or not available'')))
      | Some product \<Rightarrow> Inr product)"

definition FindAllProductsHandler_execute ::
  "fault \<Rightarrow> PaginationDto \<Rightarrow> table \<Rightarrow> exn + PaginatedProductResult" where
  "FindAllProductsHandler_execute f paginationDto t =
     (case findAllAvailablePaginated f paginationDto t of
        Inl e \<Rightarrow> Inl (RpcException 500 ''Database error finding products.'')
      | Inr paginatedResult \<Rightarrow> Inr paginatedResult)"

text \<open>
  \<^verbatim>\<open>UpdateProductHandler.execute\<close>: \<open>f1\<close> is the fault of the lookup, \<open>f2\<close> the fault of
  the repository's \<^verbatim>\<open>update\<close>.
\<close>

definition UpdateProductHandler_execute ::
  "fault \<Rightarrow> fault \<Rightarrow> string \<Rightarrow> UpdateProductData \<Rightarrow> table \<Rightarrow> (exn + Product) \<times> table" where
  "UpdateProductHandler_execute f1 f2 i updateProductData t =
     (case findById f1 i t of
        None \<Rightarrow>
          (Inl (handler_catch ''Failed to update product.''
                  (RpcException 404 (''Product with id #'' @ i @ '' not found or not available''))), t)
      | Some existingProduct \<Rightarrow>
          (case update f2 i updateProductData t of
             (Inl e, t') \<Rightarrow> (Inl (handler_catch ''Failed to update product.'' e), t')
           | (Inr updatedProduct, t') \<Rightarrow> (Inr updatedProduct, t')))"

definition DeleteProductHandler_execute ::
  "fault \<Rightarrow> fault \<Rightarrow> string \<Rightarrow> table \<Rightarrow> (exn + Product) \<times> table" where
  "DeleteProductHandler_execute f1 f2 i t =
     (case findById f1 i t of
        None \<Rightarrow>
          (Inl (handler_catch ''Failed to delete product.''
                  (RpcException 404 (''Product with id #'' @ i @ '' not found or already unavailable''))), t)
      | Some existingProduct \<Rightarrow>
          (case softDelete f2 i t of
             (Inl e, t') \<Rightarrow> (Inl (handler_catch ''Failed to delete product.'' e), t')
           | (Inr deletedProduct, t') \<Rightarrow> (Inr deletedProduct, t')))"

text \<open>\<^verbatim>\<open>missingIds.join(', ')\<close>.\<close>

fun join :: "string \<Rightarrow> string list \<Rightarrow> string" where
  "join sep [] = []"
| "join sep [x] = x"
| "join sep (x # y # ys) = x @ sep @ join sep (y # ys)"

definition ValidateProductsHandler_execute ::
  "fault \<Rightarrow> string list \<Rightarrow> table \<Rightarrow> exn + Product list" where
  "ValidateProductsHandler_execute f ids t =
     (let uniqueIds = Array_from_Set ids in
      if length uniqueIds = 0 then Inr []
      else
        (case findAvailableByIds f uniqueIds t of
           Inl e \<Rightarrow> Inl (handler_catch ''Failed to validate products.'' e)
         | Inr products \<Rightarrow>
             if length products \<noteq> length uniqueIds
             then
               (let foundIds = map p_id products;
                    missingIds = filter (\<lambda>i. i \<notin> set foundIds) uniqueIds
                in Inl (handler_catch ''Failed to validate products.''
                          (RpcException 400
                             (''Some products were not found or are unavailable: ''
                                @ join '', '' missingIds))))
             else Inr products))"

section \<open>The controller's update and the validation pipe\<close>






section \<open>Well-formed tables\<close>

text \<open>
  The entity a row maps to when the constructor accepts it, the rows a listing sees,
  and the two invariants of the stored data: the primary key is unique, and no stored
  price is negative.
\<close>

definition entity_of :: "ProductRow \<Rightarrow> Product" where
  "entity_of r =
     \<lparr>p_id = r_id r, p_name = r_name r, p_price = r_price r, p_available = r_available r\<rparr>"

definition available_rows :: "table \<Rightarrow> table" where
  "available_rows t = filter (\<lambda>r. r_available r = True) t"

definition ids_unique :: "table \<Rightarrow> bool" where
  "ids_unique t = distinct (map r_id t)"

definition prices_nonneg :: "table \<Rightarrow> bool" where
  "prices_nonneg t = list_all (\<lambda>r. 0 \<le> r_price r) t"

text \<open>
  The table after the soft delete of \<open>i\<close>, and the relation between a table and a
  later one in which every old row is still there under its key and no row has gone
  from unavailable to available.
\<close>

definition mark_unavailable :: "string \<Rightarrow> table \<Rightarrow> table" where
  "mark_unavailable i t = map (\<lambda>x. if r_id x = i then x\<lparr>r_available := False\<rparr> else x) t"

definition flag_never_raised :: "table \<Rightarrow> table \<Rightarrow> bool" where
  "flag_never_raised t t' =
     (length t \<le> length t' \<and>
      list_all2 (\<lambda>x y. r_id y = r_id x \<and> (r_available x \<or> \<not> r_available y))
        t (take (length t) t'))"

section \<open>Mapping rows to entities\<close>

lemma mapToDomain_row_ok: "0 \<le> r_price r \<Longrightarrow> mapToDomain_row r = Inr (entity_of r)"
  by (simp add: mapToDomain_row_def Product_new_def entity_of_def)

lemma mapToDomain_list_ok:
  "list_all (\<lambda>r. 0 \<le> r_price r) rs \<Longrightarrow> mapToDomain_list rs = Inr (map entity_of rs)"
  by (induction rs) (simp_all add: mapToDomain_row_ok)

lemma mapToDomain_list_Inr:
  "mapToDomain_list rs = Inr ps \<Longrightarrow> ps = map entity_of rs"
proof (induction rs arbitrary: ps)
  case Nil
  then show ?case by simp
next
  case (Cons r rs)
  then show ?case
    by (auto simp: mapToDomain_row_def Product_new_def entity_of_def
             split: sum.splits if_splits)
qed







section \<open>Paginated listing\<close>




lemma rev_window:
  "\<exists>k' n'. rev (take n (drop k (rev xs))) = take n' (drop k' xs)"
proof -
  have "rev (take n (drop k (rev xs))) =
          drop (length xs - k - n) (take (length xs - k) xs)"
    by (simp add: rev_take rev_drop)
  also have "\<dots> = take (length xs - k - (length xs - k - n)) (drop (length xs - k - n) xs)"
    by (simp only: drop_take)
  finally show ?thesis by blast
qed

lemma findMany_window:
  assumes "prisma_findMany None (Some skip) (Some tk) wh t = Inr rows"
  shows "\<exists>k n. rows = take n (drop k (sort_key r_id (filter wh t)))"
proof (cases "0 \<le> tk")
  case True
  with assms have "rows = take (nat tk) (drop (nat skip) (sort_key r_id (filter wh t)))"
    by (auto simp: prisma_findMany_def split: if_splits)
  then show ?thesis by blast
next
  case False
  with assms have
    "rows = rev (take (nat (- tk)) (drop (nat skip) (rev (sort_key r_id (filter wh t)))))"
    by (auto simp: prisma_findMany_def split: if_splits)
  then show ?thesis using rev_window by metis
qed

lemma findAll_page_window:
  assumes "FindAllProductsHandler_execute f paginationDto t = Inr r"
  shows "\<exists>k n. data r = map entity_of (take n (drop k (sort_key r_id (available_rows t))))"
proof -
  let ?page = "case dto_page paginationDto of Some p \<Rightarrow> p | None \<Rightarrow> 1"
  let ?limit = "case dto_limit paginationDto of Some l \<Rightarrow> l | None \<Rightarrow> 10"
  from assms obtain rows where
    rows: "prisma_findMany None (Some ((?page - 1) * ?limit)) (Some ?limit)
             (\<lambda>r. r_available r = True) t = Inr rows"
    and dom: "mapToDomain_list rows = Inr (data r)"
    by (cases f)
       (auto simp: FindAllProductsHandler_execute_def findAllAvailablePaginated_def
          prisma_transaction_def Let_def split: sum.splits prod.splits)
  from findMany_window [OF rows] obtain k n where
    "rows = take n (drop k (sort_key r_id (available_rows t)))"
    unfolding available_rows_def by blast
  with mapToDomain_list_Inr [OF dom] show ?thesis by blast
qed

lemma findAll_page_sorted:
  assumes "FindAllProductsHandler_execute f paginationDto t = Inr r"
  shows "sorted (map p_id (data r))"
proof -
  from findAll_page_window [OF assms] obtain k n where
    d: "data r = map entity_of (take n (drop k (sort_key r_id (available_rows t))))"
    by blast
  have "map p_id (data r) = take n (drop k (map r_id (sort_key r_id (available_rows t))))"
    by (simp add: d entity_of_def take_map drop_map comp_def)
  moreover have "sorted (map r_id (sort_key r_id (available_rows t)))"
    by (rule sorted_sort_key)
  ultimately show ?thesis by (simp add: sorted_wrt_take sorted_wrt_drop)
qed

lemma same_rows_same_order:
  assumes "distinct (map r_id t1)" and "distinct (map r_id t2)" and "set t2 = set t1"
  shows "sort_key r_id (filter P t2) = sort_key r_id (filter P t1)"
proof (rule map_sorted_distinct_set_unique [where f = r_id])
  have inj: "inj_on r_id (set t1)" using assms(1) by (simp add: distinct_map)
  show "inj_on r_id (set (sort_key r_id (filter P t2)) \<union> set (sort_key r_id (filter P t1)))"
    using inj assms(3) by (auto intro: inj_on_subset)
  show "sorted (map r_id (sort_key r_id (filter P t2)))" by (rule sorted_sort_key)
  show "sorted (map r_id (sort_key r_id (filter P t1)))" by (rule sorted_sort_key)
  show "distinct (map r_id (sort_key r_id (filter P t2)))"
    using assms(2) by (auto simp: distinct_map intro: inj_on_subset)
  show "distinct (map r_id (sort_key r_id (filter P t1)))"
    using assms(1) by (auto simp: distinct_map intro: inj_on_subset)
  show "set (sort_key r_id (filter P t2)) = set (sort_key r_id (filter P t1))"
    using assms(3) by simp
qed

lemma same_rows_same_count:
  assumes "distinct (map r_id t1)" and "distinct (map r_id t2)" and "set t2 = set t1"
  shows "length (filter P t2) = length (filter P t1)"
proof -
  have "length (sort_key r_id (filter P t2)) = length (sort_key r_id (filter P t1))"
    using same_rows_same_order [OF assms] by simp
  then show ?thesis by simp
qed

lemma findMany_same_rows:
  assumes "distinct (map r_id t1)" and "distinct (map r_id t2)" and "set t2 = set t1"
  shows "prisma_findMany f (Some k) (Some n) P t2 = prisma_findMany f (Some k) (Some n) P t1"
  by (cases f) (simp_all add: prisma_findMany_def same_rows_same_order [OF assms])

lemma count_same_rows:
  assumes "distinct (map r_id t1)" and "distinct (map r_id t2)" and "set t2 = set t1"
  shows "prisma_count P t2 = prisma_count P t1"
  by (simp add: prisma_count_def same_rows_same_count [OF assms])

lemma transaction_same_rows:
  assumes "distinct (map r_id t1)" and "distinct (map r_id t2)" and "set t2 = set t1"
  shows "prisma_transaction f P k n t2 = prisma_transaction f P k n t1"
  unfolding prisma_transaction_def findMany_same_rows [OF assms] count_same_rows [OF assms]
  by (rule refl)

lemma findAll_same_rows:
  assumes "distinct (map r_id t1)" and "distinct (map r_id t2)" and "set t2 = set t1"
  shows "FindAllProductsHandler_execute f paginationDto t2 =
         FindAllProductsHandler_execute f paginationDto t1"
  by (simp add: FindAllProductsHandler_execute_def findAllAvailablePaginated_def
        transaction_same_rows [OF assms])

text \<open>
  C9. The page does not depend on the order in which the storage holds the rows: for two
  tables with a unique key and the same rows, in whatever scan order, two listings with
  the same page and limit that both succeed return the same result, whatever else
  happens to the storage calls, and the products of the page come in the ascending
  order of their keys. Two listings of one table with no mutation between them are the
  case of equal tables.
\<close>

theorem FindAll_stable_across_calls:
  assumes "ids_unique t1" and "ids_unique t2" and "set t2 = set t1"
      and "FindAllProductsHandler_execute f1 paginationDto t1 = Inr r1"
      and "FindAllProductsHandler_execute f2 paginationDto t2 = Inr r2"
  shows "r1 = r2 \<and> sorted (map p_id (data r1))"
proof -
  have none: "f = None" if "FindAllProductsHandler_execute f paginationDto t = Inr r" for f r t
    using that
    by (cases f)
       (auto simp: FindAllProductsHandler_execute_def findAllAvailablePaginated_def
          prisma_transaction_def Let_def)
  from assms(4,5) have "f1 = None" and "f2 = None" by (auto dest: none)
  moreover have "FindAllProductsHandler_execute None paginationDto t2 =
      FindAllProductsHandler_execute None paginationDto t1"
    using assms(1,2,3) unfolding ids_unique_def by (rule findAll_same_rows)
  ultimately have "r1 = r2" using assms(4,5) by simp
  with findAll_page_sorted [OF assms(4)] show ?thesis by simp
qed

theorem FindAll_stable_across_calls_witness:
  "FindAllProductsHandler_execute None \<lparr>dto_page = Some 1, dto_limit = Some 1\<rparr>
       [\<lparr>r_id = ''b'', r_name = ''B'', r_price = 20, r_available = True\<rparr>,
        \<lparr>r_id = ''a'', r_name = ''A'', r_price = 10, r_available = True\<rparr>] =
     Inr \<lparr>data = [\<lparr>p_id = ''a'', p_name = ''A'', p_price = 10, p_available = True\<rparr>],
          meta = \<lparr>m_total = 2, m_page = 1, m_lastPage = Num 2\<rparr>\<rparr>
   \<and> FindAllProductsHandler_execute None \<lparr>dto_page = Some 1, dto_limit = Some 1\<rparr>
       [\<lparr>r_id = ''a'', r_name = ''A'', r_price = 10, r_available = True\<rparr>,
        \<lparr>r_id = ''b'', r_name = ''B'', r_price = 20, r_available = True\<rparr>] =
     FindAllProductsHandler_execute None \<lparr>dto_page = Some 1, dto_limit = Some 1\<rparr>
       [\<lparr>r_id = ''b'', r_name = ''B'', r_price = 20, r_available = True\<rparr>,
        \<lparr>r_id = ''a'', r_name = ''A'', r_price = 10, r_available = True\<rparr>]"
proof -
  let ?a = "\<lparr>r_id = ''a'', r_name = ''A'', r_price = 10, r_available = True\<rparr>"
  let ?b = "\<lparr>r_id = ''b'', r_name = ''B'', r_price = 20, r_available = True\<rparr>"
  let ?dto = "\<lparr>dto_page = Some 1, dto_limit = Some 1\<rparr>"
  let ?r = "\<lparr>data = [\<lparr>p_id = ''a'', p_name = ''A'', p_price = 10, p_available = True\<rparr>],
          meta = \<lparr>m_total = 2, m_page = 1, m_lastPage = Num 2\<rparr>\<rparr>"
  have h1: "ids_unique [?b, ?a]" by (simp add: ids_unique_def)
  have h2: "ids_unique [?a, ?b]" by (simp add: ids_unique_def)
  have h3: "set [?a, ?b] = set [?b, ?a]" by auto
  have h4: "FindAllProductsHandler_execute None ?dto [?b, ?a] = Inr ?r"
    by (simp add: FindAllProductsHandler_execute_def findAllAvailablePaginated_def
          prisma_transaction_def prisma_findMany_def int64_def prisma_count_def
          Math_ceil_div_def mapToDomain_row_def Product_new_def)
  obtain r2 where h5: "FindAllProductsHandler_execute None ?dto [?a, ?b] = Inr r2"
    by (simp add: FindAllProductsHandler_execute_def findAllAvailablePaginated_def
          prisma_transaction_def prisma_findMany_def int64_def prisma_count_def
          Math_ceil_div_def mapToDomain_row_def Product_new_def)
  from FindAll_stable_across_calls [OF h1 h2 h3 h4 h5] have "?r = r2" by simp
  with h4 h5 show ?thesis by simp
qed

section \<open>Batch validation\<close>

lemma foldl_Set_add_set: "set (foldl Set_add acc xs) = set acc \<union> set xs"
  by (induction xs arbitrary: acc) (auto simp: Set_add_def)

lemma foldl_Set_add_distinct: "distinct acc \<Longrightarrow> distinct (foldl Set_add acc xs)"
  by (induction xs arbitrary: acc) (auto simp: Set_add_def)

lemma Array_from_Set_set: "set (Array_from_Set ids) = set ids"
  by (simp add: Array_from_Set_def foldl_Set_add_set)

lemma Array_from_Set_distinct: "distinct (Array_from_Set ids)"
  by (simp add: Array_from_Set_def foldl_Set_add_distinct)

lemma Array_from_Set_Nil_iff: "Array_from_Set ids = [] \<longleftrightarrow> ids = []"
proof -
  have "set (Array_from_Set ids) = {} \<longleftrightarrow> set ids = {}"
    by (simp only: Array_from_Set_set)
  then show ?thesis by simp
qed

lemma found_length_le:
  assumes "distinct (map r_id t)" and "distinct U"
  shows "length (filter (\<lambda>r. r_id r \<in> set U \<and> P r) t) \<le> length U"
proof -
  let ?rows = "filter (\<lambda>r. r_id r \<in> set U \<and> P r) t"
  have d: "distinct (map r_id ?rows)"
    using assms(1) by (rule distinct_map_filter)
  have sub: "set (map r_id ?rows) \<subseteq> set U" by auto
  have "length ?rows = length (map r_id ?rows)" by simp
  also have "\<dots> = card (set (map r_id ?rows))"
    using d by (simp only: distinct_card)
  also have "\<dots> \<le> card (set U)"
    using sub by (rule card_mono [OF finite_set])
  also have "\<dots> = length U"
    using assms(2) by (rule distinct_card)
  finally show ?thesis .
qed

lemma findAvailableByIds_Inr:
  assumes "findAvailableByIds f U t = Inr F" and "U \<noteq> []"
  shows "F = map entity_of (filter (\<lambda>r. r_id r \<in> set U \<and> r_available r) t)"
proof -
  from assms have "f = None"
    by (cases f) (auto simp: findAvailableByIds_def prisma_findMany_def)
  with assms have
    "mapToDomain_list (filter (\<lambda>r. r_id r \<in> set U \<and> r_available r) t) = Inr F"
    by (auto simp: findAvailableByIds_def prisma_findMany_def Array_from_Set_set
             split: sum.splits)
  then show ?thesis by (rule mapToDomain_list_Inr)
qed

lemma findAvailableByIds_ok:
  assumes "prices_nonneg t" and "U \<noteq> []"
  shows "findAvailableByIds None U t =
           Inr (map entity_of (filter (\<lambda>r. r_id r \<in> set U \<and> r_available r) t))"
proof -
  have "list_all (\<lambda>r. 0 \<le> r_price r) (filter (\<lambda>r. r_id r \<in> set U \<and> r_available r) t)"
    using assms(1) by (auto simp: prices_nonneg_def list_all_iff)
  then have "mapToDomain_list (filter (\<lambda>r. r_id r \<in> set U \<and> r_available r) t) =
      Inr (map entity_of (filter (\<lambda>r. r_id r \<in> set U \<and> r_available r) t))"
    by (rule mapToDomain_list_ok)
  with assms(2) show ?thesis
    by (simp add: findAvailableByIds_def prisma_findMany_def Array_from_Set_set)
qed

text \<open>
  C2. The validation of an empty list returns the empty list whatever the storage does.
  For a list that is not empty, with \<open>U\<close> the list without duplicates and \<open>F\<close> the
  available products the repository finds for \<open>U\<close> in a table with a unique key: \<open>F\<close> has
  at most as many elements as \<open>U\<close>; with fewer, the handler fails with status 400 and a
  message that lists the identifiers of \<open>U\<close> that are not the id of a found product; with
  as many, it returns \<open>F\<close>.
\<close>

theorem ValidateProducts_all_or_nothing:
  "ValidateProductsHandler_execute f [] t = Inr []
   \<and> (ids \<noteq> [] \<longrightarrow> ids_unique t \<longrightarrow>
        findAvailableByIds f (Array_from_Set ids) t = Inr F \<longrightarrow>
          set (Array_from_Set ids) = set ids
          \<and> distinct (Array_from_Set ids)
          \<and> F = map entity_of (filter (\<lambda>r. r_id r \<in> set ids \<and> r_available r) t)
          \<and> length F \<le> length (Array_from_Set ids)
          \<and> ValidateProductsHandler_execute f ids t =
              (if length F < length (Array_from_Set ids)
               then Inl (RpcException 400
                      (''Some products were not found or are unavailable: ''
                         @ join '', '' (filter (\<lambda>i. i \<notin> set (map p_id F)) (Array_from_Set ids))))
               else Inr F))"
proof -
  have empty: "ValidateProductsHandler_execute f [] t = Inr []"
    by (simp add: ValidateProductsHandler_execute_def Array_from_Set_def)
  have rest:
    "set (Array_from_Set ids) = set ids
     \<and> distinct (Array_from_Set ids)
     \<and> F = map entity_of (filter (\<lambda>r. r_id r \<in> set ids \<and> r_available r) t)
     \<and> length F \<le> length (Array_from_Set ids)
     \<and> ValidateProductsHandler_execute f ids t =
         (if length F < length (Array_from_Set ids)
          then Inl (RpcException 400
                 (''Some products were not found or are unavailable: ''
                    @ join '', '' (filter (\<lambda>i. i \<notin> set (map p_id F)) (Array_from_Set ids))))
          else Inr F)"
    if ne: "ids \<noteq> []" and u: "ids_unique t"
      and found: "findAvailableByIds f (Array_from_Set ids) t = Inr F"
  proof -
    let ?U = "Array_from_Set ids"
    have Une: "?U \<noteq> []" using ne by (simp add: Array_from_Set_Nil_iff)
    have F: "F = map entity_of (filter (\<lambda>r. r_id r \<in> set ids \<and> r_available r) t)"
      using findAvailableByIds_Inr [OF found Une] by (simp add: Array_from_Set_set)
    have "length (filter (\<lambda>r. r_id r \<in> set ?U \<and> r_available r) t) \<le> length ?U"
      using u Array_from_Set_distinct unfolding ids_unique_def by (rule found_length_le)
    then have le: "length F \<le> length ?U"
      by (simp add: F Array_from_Set_set)
    have ex: "ValidateProductsHandler_execute f ids t =
         (if length F < length ?U
          then Inl (RpcException 400
                 (''Some products were not found or are unavailable: ''
                    @ join '', '' (filter (\<lambda>i. i \<notin> set (map p_id F)) ?U)))
          else Inr F)"
      using Une le found
      by (auto simp: ValidateProductsHandler_execute_def Let_def handler_catch_def)
    show ?thesis
      using F le ex by (simp add: Array_from_Set_set Array_from_Set_distinct)
  qed
  show ?thesis using empty rest by blast
qed

theorem ValidateProducts_all_or_nothing_witness:
  "ValidateProductsHandler_execute None [''a'', ''b'', ''c'', ''a'']
       [\<lparr>r_id = ''a'', r_name = ''A'', r_price = 10, r_available = True\<rparr>,
        \<lparr>r_id = ''b'', r_name = ''B'', r_price = 20, r_available = True\<rparr>,
        \<lparr>r_id = ''c'', r_name = ''C'', r_price = 30, r_available = False\<rparr>] =
     Inl (RpcException 400 ''Some products were not found or are unavailable: c'')"
proof -
  let ?t = "[\<lparr>r_id = ''a'', r_name = ''A'', r_price = 10, r_available = True\<rparr>,
        \<lparr>r_id = ''b'', r_name = ''B'', r_price = 20, r_available = True\<rparr>,
        \<lparr>r_id = ''c'', r_name = ''C'', r_price = 30, r_available = False\<rparr>]"
  let ?F = "[\<lparr>p_id = ''a'', p_name = ''A'', p_price = 10, p_available = True\<rparr>,
        \<lparr>p_id = ''b'', p_name = ''B'', p_price = 20, p_available = True\<rparr>]"
  have U: "Array_from_Set [''a'', ''b'', ''c'', ''a''] = [''a'', ''b'', ''c'']"
    by (simp add: Array_from_Set_def Set_add_def)
  have h1: "[''a'', ''b'', ''c'', ''a''] \<noteq> []" by simp
  have h2: "ids_unique ?t" by (simp add: ids_unique_def)
  have h3: "findAvailableByIds None (Array_from_Set [''a'', ''b'', ''c'', ''a'']) ?t = Inr ?F"
    by (simp add: U findAvailableByIds_def prisma_findMany_def Array_from_Set_def Set_add_def
          mapToDomain_row_def Product_new_def)
  from ValidateProducts_all_or_nothing
         [of None ?t "[''a'', ''b'', ''c'', ''a'']" ?F] h1 h2 h3
  show ?thesis by (simp add: U)
qed


section \<open>Soft delete\<close>

lemma flag_never_raised_refl: "flag_never_raised t t"
  by (simp add: flag_never_raised_def list_all2_same)

lemma flag_never_raised_map:
  assumes "\<And>x. r_id (g x) = r_id x" and "\<And>x. r_available (g x) \<Longrightarrow> r_available x"
  shows "flag_never_raised t (map (\<lambda>x. if r_id x = i then g x else x) t)"
  using assms by (auto simp: flag_never_raised_def list_all2_map2 list_all2_same)

lemma flag_never_raised_append: "flag_never_raised t (t @ rs)"
  by (simp add: flag_never_raised_def list_all2_same)

lemma prisma_update_flag:
  assumes "prisma_update f i d t = (res, t')" and "d_available d \<noteq> Some True"
  shows "flag_never_raised t t'"
proof -
  have id: "r_id (apply_data d x) = r_id x" for x by (simp add: apply_data_def)
  have av: "r_available (apply_data d x) \<Longrightarrow> r_available x" for x
    using assms(2) by (cases "d_available d") (auto simp: apply_data_def)
  have "t' = t \<or> t' = map (\<lambda>x. if r_id x = i then apply_data d x else x) t"
    using assms(1) by (auto simp: prisma_update_def split: option.splits)
  then show ?thesis
    using flag_never_raised_refl flag_never_raised_map [of "apply_data d", OF id av] by auto
qed

lemma softDelete_flag: "softDelete f i t = (res, t') \<Longrightarrow> flag_never_raised t t'"
proof -
  assume a: "softDelete f i t = (res, t')"
  obtain r0 t0 where p:
    "prisma_update f i \<lparr>d_name = None, d_price = None, d_available = Some False\<rparr> t = (r0, t0)"
    by (cases "prisma_update f i \<lparr>d_name = None, d_price = None, d_available = Some False\<rparr> t")
  from a p have "t' = t0"
    by (auto simp: softDelete_def split: sum.splits)
  moreover from p have "flag_never_raised t t0"
    by (rule prisma_update_flag) simp
  ultimately show ?thesis by simp
qed

lemma update_flag: "update f i u t = (res, t') \<Longrightarrow> flag_never_raised t t'"
proof -
  assume a: "update f i u t = (res, t')"
  obtain r0 t0 where p: "prisma_update f i (mapToPrismaUpdateData u) t = (r0, t0)"
    by (cases "prisma_update f i (mapToPrismaUpdateData u) t")
  from a p have "t' = t \<or> t' = t0"
    by (auto simp: update_def Let_def split: sum.splits option.splits if_splits)
  moreover from p have "flag_never_raised t t0"
    by (rule prisma_update_flag) (simp add: mapToPrismaUpdateData_def)
  ultimately show ?thesis using flag_never_raised_refl by auto
qed

lemma create_flag: "create f cd t = (res, t') \<Longrightarrow> flag_never_raised t t'"
  using flag_never_raised_refl flag_never_raised_append
  by (auto simp: create_def prisma_create_def split: option.splits sum.splits if_splits prod.splits)

lemma find_unique_row:
  assumes "distinct (map r_id t)" and "r \<in> set t"
  shows "find (\<lambda>x. r_id x = r_id r) t = Some r"
  using assms
proof (induction t)
  case Nil
  then show ?case by simp
next
  case (Cons a t)
  then show ?case by (cases "a = r") force+
qed

lemma find_available_row:
  assumes "distinct (map r_id t)" and "r \<in> set t" and "r_available r"
  shows "find (\<lambda>x. r_id x = r_id r \<and> r_available x = True) t = Some r"
  using assms
proof (induction t)
  case Nil
  then show ?case by simp
next
  case (Cons a t)
  then show ?case by (cases "a = r") force+
qed

lemma find_none_after_mark:
  "find (\<lambda>x. r_id x = i \<and> r_available x = True) (mark_unavailable i t) = None"
  by (induction t) (simp_all add: mark_unavailable_def)

lemma findById_None_if_no_row:
  "find (\<lambda>x. r_id x = i \<and> r_available x = True) t = None \<Longrightarrow> findById f i t = None"
  by (cases f) (auto simp: findById_def prisma_findFirst_def mapToDomain_def)

lemma Delete_not_found:
  assumes "findById f1 i t = None"
  shows "DeleteProductHandler_execute f1 f2 i t =
     (Inl (RpcException 404 (''Product with id #'' @ i @ '' not found or already unavailable'')), t)"
  using assms by (simp add: DeleteProductHandler_execute_def handler_catch_def)

lemma Delete_found:
  assumes "distinct (map r_id t)" and "r \<in> set t" and "r_available r" and "0 \<le> r_price r"
  shows "DeleteProductHandler_execute None None (r_id r) t =
     (Inr ((entity_of r)\<lparr>p_available := False\<rparr>), mark_unavailable (r_id r) t)"
proof -
  have f1: "findById None (r_id r) t = Some (entity_of r)"
    using find_available_row [OF assms(1,2,3)] assms(4)
    by (simp add: findById_def prisma_findFirst_def mapToDomain_def mapToDomain_row_ok)
  have f2: "softDelete None (r_id r) t =
      (Inr ((entity_of r)\<lparr>p_available := False\<rparr>), mark_unavailable (r_id r) t)"
    using find_unique_row [OF assms(1,2)] assms(4)
    by (simp add: softDelete_def prisma_update_def apply_data_def mapToDomain_row_def
          Product_new_def entity_of_def mark_unavailable_def)
  show ?thesis by (simp add: DeleteProductHandler_execute_def f1 f2)
qed

text \<open>
  C3. In a table with a unique key, the delete of an available row with a price that is
  not negative succeeds with a working storage and returns the product with
  \<open>available = false\<close>; a delete of the same id afterwards fails with status 404 and
  changes nothing, whatever the storage does; so does the delete of any id that has no
  available row. No run of the Delete, Update or Create handler turns an unavailable row
  into an available one.
\<close>

theorem Delete_once_then_not_found:
  "(ids_unique t \<longrightarrow> r \<in> set t \<longrightarrow> r_available r \<longrightarrow> 0 \<le> r_price r \<longrightarrow>
      DeleteProductHandler_execute None None (r_id r) t =
        (Inr ((entity_of r)\<lparr>p_available := False\<rparr>), mark_unavailable (r_id r) t)
      \<and> DeleteProductHandler_execute f1 f2 (r_id r) (mark_unavailable (r_id r) t) =
          (Inl (RpcException 404
                  (''Product with id #'' @ r_id r @ '' not found or already unavailable'')),
           mark_unavailable (r_id r) t))
   \<and> (find (\<lambda>x. r_id x = i \<and> r_available x = True) t = None \<longrightarrow>
        DeleteProductHandler_execute f1 f2 i t =
          (Inl (RpcException 404 (''Product with id #'' @ i @ '' not found or already unavailable'')),
           t))
   \<and> (DeleteProductHandler_execute f1 f2 i t = (res, t') \<longrightarrow> flag_never_raised t t')
   \<and> (UpdateProductHandler_execute f1 f2 i u t = (res, t') \<longrightarrow> flag_never_raised t t')
   \<and> (CreateProductHandler_execute f1 uuid n p t = (res, t') \<longrightarrow> flag_never_raised t t')"
proof -
  have first: "DeleteProductHandler_execute None None (r_id r) t =
        (Inr ((entity_of r)\<lparr>p_available := False\<rparr>), mark_unavailable (r_id r) t)"
    if "ids_unique t" "r \<in> set t" "r_available r" "0 \<le> r_price r"
    using that unfolding ids_unique_def by (rule Delete_found)
  have second: "DeleteProductHandler_execute f1 f2 j (mark_unavailable j t) =
          (Inl (RpcException 404 (''Product with id #'' @ j @ '' not found or already unavailable'')),
           mark_unavailable j t)" for j
    by (rule Delete_not_found, rule findById_None_if_no_row, rule find_none_after_mark)
  have absent: "DeleteProductHandler_execute f1 f2 i t =
          (Inl (RpcException 404 (''Product with id #'' @ i @ '' not found or already unavailable'')),
           t)"
    if "find (\<lambda>x. r_id x = i \<and> r_available x = True) t = None"
    using that by (intro Delete_not_found findById_None_if_no_row)
  have del: "flag_never_raised t t'" if "DeleteProductHandler_execute f1 f2 i t = (res, t')"
  proof (cases "findById f1 i t")
    case None
    with that show ?thesis
      by (auto simp: DeleteProductHandler_execute_def flag_never_raised_refl)
  next
    case (Some a)
    obtain r0 t0 where s: "softDelete f2 i t = (r0, t0)" by (cases "softDelete f2 i t")
    with that Some have "t' = t0"
      by (auto simp: DeleteProductHandler_execute_def split: sum.splits)
    with softDelete_flag [OF s] show ?thesis by simp
  qed
  have upd: "flag_never_raised t t'" if "UpdateProductHandler_execute f1 f2 i u t = (res, t')"
  proof (cases "findById f1 i t")
    case None
    with that show ?thesis
      by (auto simp: UpdateProductHandler_execute_def flag_never_raised_refl)
  next
    case (Some a)
    obtain r0 t0 where s: "update f2 i u t = (r0, t0)" by (cases "update f2 i u t")
    with that Some have "t' = t0"
      by (auto simp: UpdateProductHandler_execute_def split: sum.splits)
    with update_flag [OF s] show ?thesis by simp
  qed
  have cre: "flag_never_raised t t'" if "CreateProductHandler_execute f1 uuid n p t = (res, t')"
  proof -
    obtain r0 t0 where s: "create f1 \<lparr>c_id = uuid, c_name = n, c_price = p\<rparr> t = (r0, t0)"
      by (cases "create f1 \<lparr>c_id = uuid, c_name = n, c_price = p\<rparr> t")
    with that have "t' = t0"
      by (auto simp: CreateProductHandler_execute_def split: sum.splits)
    with create_flag [OF s] show ?thesis by simp
  qed
  show ?thesis using first second absent del upd cre by blast
qed



theorem Delete_once_then_not_found_witness:
  "DeleteProductHandler_execute None None ''a''
       [\<lparr>r_id = ''a'', r_name = ''A'', r_price = 10, r_available = True\<rparr>,
        \<lparr>r_id = ''b'', r_name = ''B'', r_price = 20, r_available = True\<rparr>] =
     (Inr \<lparr>p_id = ''a'', p_name = ''A'', p_price = 10, p_available = False\<rparr>,
      [\<lparr>r_id = ''a'', r_name = ''A'', r_price = 10, r_available = False\<rparr>,
       \<lparr>r_id = ''b'', r_name = ''B'', r_price = 20, r_available = True\<rparr>])
   \<and> DeleteProductHandler_execute None None ''a''
       [\<lparr>r_id = ''a'', r_name = ''A'', r_price = 10, r_available = False\<rparr>,
        \<lparr>r_id = ''b'', r_name = ''B'', r_price = 20, r_available = True\<rparr>] =
     (Inl (RpcException 404 ''Product with id #a not found or already unavailable''),
      [\<lparr>r_id = ''a'', r_name = ''A'', r_price = 10, r_available = False\<rparr>,
       \<lparr>r_id = ''b'', r_name = ''B'', r_price = 20, r_available = True\<rparr>])
   \<and> DeleteProductHandler_execute None None ''z''
       [\<lparr>r_id = ''a'', r_name = ''A'', r_price = 10, r_available = True\<rparr>,
        \<lparr>r_id = ''b'', r_name = ''B'', r_price = 20, r_available = True\<rparr>] =
     (Inl (RpcException 404 ''Product with id #z not found or already unavailable''),
      [\<lparr>r_id = ''a'', r_name = ''A'', r_price = 10, r_available = True\<rparr>,
       \<lparr>r_id = ''b'', r_name = ''B'', r_price = 20, r_available = True\<rparr>])
   \<and> flag_never_raised
       [\<lparr>r_id = ''a'', r_name = ''A'', r_price = 10, r_available = True\<rparr>,
        \<lparr>r_id = ''b'', r_name = ''B'', r_price = 20, r_available = True\<rparr>]
       [\<lparr>r_id = ''a'', r_name = ''A'', r_price = 10, r_available = False\<rparr>,
        \<lparr>r_id = ''b'', r_name = ''B'', r_price = 20, r_available = True\<rparr>]"
proof -
  let ?a = "\<lparr>r_id = ''a'', r_name = ''A'', r_price = 10, r_available = True\<rparr>"
  let ?b = "\<lparr>r_id = ''b'', r_name = ''B'', r_price = 20, r_available = True\<rparr>"
  let ?res = "Inr \<lparr>p_id = ''a'', p_name = ''A'', p_price = 10, p_available = False\<rparr> :: exn + Product"
  let ?t' = "[\<lparr>r_id = ''a'', r_name = ''A'', r_price = 10, r_available = False\<rparr>, ?b]"
  have h1: "ids_unique [?a, ?b]" by (simp add: ids_unique_def)
  have h2: "?a \<in> set [?a, ?b]" by simp
  have h3: "r_available ?a" by simp
  have h4: "0 \<le> r_price ?a" by simp
  have h5: "find (\<lambda>x. r_id x = ''z'' \<and> r_available x = True) [?a, ?b] = None" by simp
  have m: "mark_unavailable ''a'' [?a, ?b] = ?t'" by (simp add: mark_unavailable_def)
  note inst = Delete_once_then_not_found
               [of "[?a, ?b]" ?a None None "''z''" ?res ?t'
                   "\<lparr>u_name = None, u_price = None\<rparr>" "''u''" "''n''" 1]
  have c12: "DeleteProductHandler_execute None None (r_id ?a) [?a, ?b] =
        (Inr ((entity_of ?a)\<lparr>p_available := False\<rparr>), mark_unavailable (r_id ?a) [?a, ?b])
      \<and> DeleteProductHandler_execute None None (r_id ?a) (mark_unavailable (r_id ?a) [?a, ?b]) =
          (Inl (RpcException 404
                  (''Product with id #'' @ r_id ?a @ '' not found or already unavailable'')),
           mark_unavailable (r_id ?a) [?a, ?b])"
    by (rule inst [THEN conjunct1, rule_format, OF h1 h2 h3 h4])
  have c3: "DeleteProductHandler_execute None None ''z'' [?a, ?b] =
          (Inl (RpcException 404 (''Product with id #'' @ ''z'' @ '' not found or already unavailable'')),
           [?a, ?b])"
    by (rule inst [THEN conjunct2, THEN conjunct1, rule_format, OF h5])
  have d: "DeleteProductHandler_execute None None (r_id ?a) [?a, ?b] = (?res, ?t')"
    using c12 by (simp add: m entity_of_def)
  have c4: "flag_never_raised [?a, ?b] ?t'"
    by (rule Delete_once_then_not_found
               [of "[?a, ?b]" ?a None None "''a''" ?res ?t'
                   "\<lparr>u_name = None, u_price = None\<rparr>" "''u''" "''n''" 1,
                THEN conjunct2, THEN conjunct2, THEN conjunct1, rule_format])
       (use d in simp)
  have e1: "DeleteProductHandler_execute None None ''a'' [?a, ?b] = (?res, ?t')"
    using d by simp
  have e2: "DeleteProductHandler_execute None None ''a'' ?t' =
     (Inl (RpcException 404 ''Product with id #a not found or already unavailable''), ?t')"
    using c12 by (simp add: m)
  have e3: "DeleteProductHandler_execute None None ''z'' [?a, ?b] =
     (Inl (RpcException 404 ''Product with id #z not found or already unavailable''), [?a, ?b])"
    using c3 by simp
  show ?thesis using e1 e2 e3 c4 by (simp only: simp_thms)
qed


section \<open>Create\<close>







section \<open>Update and the entity's invariants\<close>








text \<open>
  C5. The stored name is claimed to be non-empty and trimmed after every successful
  Create and Update. Neither handler calls \<^verbatim>\<open>updateDetails\<close>, and the constructor does
  not look at the name: Create with the empty name and Update with a name of two spaces
  both succeed and store the name as given.
\<close>

theorem empty_names_are_stored:
  "CreateProductHandler_execute None ''u1'' [] 5 [] =
     (Inr \<lparr>p_id = ''u1'', p_name = [], p_price = 5, p_available = True\<rparr>,
      [\<lparr>r_id = ''u1'', r_name = [], r_price = 5, r_available = True\<rparr>])
   \<and> UpdateProductHandler_execute None None ''a'' \<lparr>u_name = Some ''  '', u_price = None\<rparr>
       [\<lparr>r_id = ''a'', r_name = ''A'', r_price = 10, r_available = True\<rparr>] =
     (Inr \<lparr>p_id = ''a'', p_name = ''  '', p_price = 10, p_available = True\<rparr>,
      [\<lparr>r_id = ''a'', r_name = ''  '', r_price = 10, r_available = True\<rparr>])"
  by (simp add: CreateProductHandler_execute_def create_def prisma_create_def
        UpdateProductHandler_execute_def findById_def prisma_findFirst_def
        mapToDomain_def mapToDomain_row_def Product_new_def update_def
        mapToPrismaUpdateData_def prisma_update_def apply_data_def)

section \<open>The repository's update\<close>

text \<open>
  C8, as stated, fails: with no field supplied and no product found, \<^verbatim>\<open>update\<close> throws a
  plain Error, not the RpcException 404; a handler that catches it answers with status
  500.
\<close>

theorem update_without_fields_plain_error:
  "update None ''zz'' \<lparr>u_name = None, u_price = None\<rparr> [] =
     (Inl (Error ''Product #zz not found for update check.''), [])
   \<and> handler_catch ''Failed to update product.'' (Error ''Product #zz not found for update check.'') =
       RpcException 500 ''Product #zz not found for update check.''"
  by (simp add: update_def mapToPrismaUpdateData_def findById_def prisma_findFirst_def
        mapToDomain_def handler_catch_def wrap_error_def)

lemma findById_found:
  assumes "distinct (map r_id t)" and "r \<in> set t" and "r_available r" and "0 \<le> r_price r"
  shows "findById None (r_id r) t = Some (entity_of r)"
  using find_available_row [OF assms(1,2,3)] assms(4)
  by (simp add: findById_def prisma_findFirst_def mapToDomain_def mapToDomain_row_ok)

lemma find_id_None: "i \<notin> set (map r_id t) \<Longrightarrow> find (\<lambda>r. r_id r = i) t = None"
  by (induction t) auto

text \<open>
  C8, amended. With no field supplied, \<^verbatim>\<open>update\<close> writes nothing: it returns the stored
  state of an available row (unique key, price not negative, working storage), and it
  throws the plain Error when \<open>findById\<close> finds nothing. With a field supplied and a
  working storage, \<^verbatim>\<open>update\<close> of an id that is no key of the table fails with status 404
  and leaves the table as it was.
\<close>

theorem update_port_contract:
  "(ids_unique t \<longrightarrow> r \<in> set t \<longrightarrow> r_available r \<longrightarrow> 0 \<le> r_price r \<longrightarrow>
      update None (r_id r) \<lparr>u_name = None, u_price = None\<rparr> t = (Inr (entity_of r), t))
   \<and> (findById f i t = None \<longrightarrow>
        update f i \<lparr>u_name = None, u_price = None\<rparr> t =
          (Inl (Error (''Product #'' @ i @ '' not found for update check.'')), t))
   \<and> (u_name u \<noteq> None \<or> u_price u \<noteq> None \<longrightarrow> i \<notin> set (map r_id t) \<longrightarrow>
        update None i u t =
          (Inl (RpcException 404 (''Product with ID '' @ i @ '' not found for update.'')), t))"
proof -
  have cur: "update None (r_id r) \<lparr>u_name = None, u_price = None\<rparr> t = (Inr (entity_of r), t)"
    if "ids_unique t" "r \<in> set t" "r_available r" "0 \<le> r_price r"
    using findById_found [OF that [unfolded ids_unique_def]]
    by (simp add: update_def mapToPrismaUpdateData_def)
  have none: "update f i \<lparr>u_name = None, u_price = None\<rparr> t =
          (Inl (Error (''Product #'' @ i @ '' not found for update check.'')), t)"
    if "findById f i t = None"
    using that by (simp add: update_def mapToPrismaUpdateData_def)
  have missing: "update None i u t =
          (Inl (RpcException 404 (''Product with ID '' @ i @ '' not found for update.'')), t)"
    if "u_name u \<noteq> None \<or> u_price u \<noteq> None" "i \<notin> set (map r_id t)"
    using that(1) find_id_None [OF that(2)]
    by (auto simp: update_def mapToPrismaUpdateData_def prisma_update_def update_catch_def)
  show ?thesis using cur none missing by blast
qed

theorem update_port_contract_witness:
  "update None ''a'' \<lparr>u_name = None, u_price = None\<rparr>
       [\<lparr>r_id = ''a'', r_name = ''A'', r_price = 10, r_available = True\<rparr>] =
     (Inr \<lparr>p_id = ''a'', p_name = ''A'', p_price = 10, p_available = True\<rparr>,
      [\<lparr>r_id = ''a'', r_name = ''A'', r_price = 10, r_available = True\<rparr>])
   \<and> update None ''zz'' \<lparr>u_name = None, u_price = None\<rparr>
       [\<lparr>r_id = ''a'', r_name = ''A'', r_price = 10, r_available = True\<rparr>] =
     (Inl (Error ''Product #zz not found for update check.''),
      [\<lparr>r_id = ''a'', r_name = ''A'', r_price = 10, r_available = True\<rparr>])
   \<and> update None ''zz'' \<lparr>u_name = None, u_price = Some 3\<rparr>
       [\<lparr>r_id = ''a'', r_name = ''A'', r_price = 10, r_available = True\<rparr>] =
     (Inl (RpcException 404 ''Product with ID zz not found for update.''),
      [\<lparr>r_id = ''a'', r_name = ''A'', r_price = 10, r_available = True\<rparr>])"
proof -
  let ?a = "\<lparr>r_id = ''a'', r_name = ''A'', r_price = 10, r_available = True\<rparr>"
  let ?u = "\<lparr>u_name = None, u_price = Some (3::rat)\<rparr>"
  have h1: "ids_unique [?a]" by (simp add: ids_unique_def)
  have h2: "?a \<in> set [?a]" by simp
  have h3: "r_available ?a" by simp
  have h4: "0 \<le> r_price ?a" by simp
  have h5: "findById None ''zz'' [?a] = None"
    by (simp add: findById_def prisma_findFirst_def mapToDomain_def)
  have h6: "u_name ?u \<noteq> None \<or> u_price ?u \<noteq> None" by simp
  have h7: "''zz'' \<notin> set (map r_id [?a])" by simp
  note inst = update_port_contract [of "[?a]" ?a None "''zz''" ?u]
  have e1: "update None (r_id ?a) \<lparr>u_name = None, u_price = None\<rparr> [?a] = (Inr (entity_of ?a), [?a])"
    by (rule inst [THEN conjunct1, rule_format, OF h1 h2 h3 h4])
  have e2: "update None ''zz'' \<lparr>u_name = None, u_price = None\<rparr> [?a] =
          (Inl (Error (''Product #'' @ ''zz'' @ '' not found for update check.'')), [?a])"
    by (rule inst [THEN conjunct2, THEN conjunct1, rule_format, OF h5])
  have e3: "update None ''zz'' ?u [?a] =
          (Inl (RpcException 404 (''Product with ID '' @ ''zz'' @ '' not found for update.'')), [?a])"
    by (rule inst [THEN conjunct2, THEN conjunct2, rule_format, OF h6 h7])
  show ?thesis using e1 e2 e3 by (simp add: entity_of_def)
qed

section \<open>Lookup failures\<close>

text \<open>
  C10. \<open>findById\<close> returns a value and never an exception. When the storage call of
  the lookup fails, it returns null, and the FindOne, Update and Delete handlers answer
  with the 404 of a product that was not found, the table left as it was.
\<close>

theorem lookup_failure_is_not_found:
  "findById (Some (c, m)) i t = None
   \<and> FindOneProductHandler_execute (Some (c, m)) i t =
       Inl (RpcException 404 (''Product with id #'' @ i @ '' not found or not available''))
   \<and> UpdateProductHandler_execute (Some (c, m)) f2 i updateProductData t =
       (Inl (RpcException 404 (''Product with id #'' @ i @ '' not found or not available'')), t)
   \<and> DeleteProductHandler_execute (Some (c, m)) f2 i t =
       (Inl (RpcException 404 (''Product with id #'' @ i @ '' not found or already unavailable'')), t)"
  by (simp add: findById_def prisma_findFirst_def FindOneProductHandler_execute_def
        UpdateProductHandler_execute_def DeleteProductHandler_execute_def handler_catch_def)

section \<open>The entity's update\<close>

text \<open>
  C7. A failing \<^verbatim>\<open>updateDetails\<close> is claimed to leave every field unchanged. At the
  entity with name Old and price 10, the call with name Widget and price -5 throws the
  price error after the name has been assigned: the entity is left with the new name.
\<close>

theorem updateDetails_partial_mutation:
  "updateDetails (Some ''Widget'') (Some (-5))
       \<lparr>p_id = ''a'', p_name = ''Old'', p_price = 10, p_available = True\<rparr>
     = (Inl (Error ''Product price cannot be negative.''),
        \<lparr>p_id = ''a'', p_name = ''Widget'', p_price = 10, p_available = True\<rparr>)"
  by (simp add: updateDetails_def trim_def is_space_def)

end
